theory Spec2Isabelle
  imports Main
begin

section \<open>The SIEM integrations package initializer\<close>

text \<open>
  The unit under verification is \<^verbatim>\<open>tracecat/actions/integrations/siem/__init__.py\<close>:
  \<^verbatim>\<open>
  from .datadog import list_datadog_alerts
  from .elastic import list_elastic_alerts
  from .acumen_elastic import acumen_list_elastic_alerts
  __all__ = [
      "list_datadog_alerts",
      "list_elastic_alerts",
      "acumen_list_elastic_alerts"
  ]
  \<close>
  It is four module-level statements: three relative from-imports and one assignment of
  a list literal. The statements are kept as data, in the order of the file, and run by
  an interpreter that follows what Python does with each of them.
\<close>

subsection \<open>Objects, namespaces and errors\<close>

text \<open>
  The objects that can occur: \<open>None\<close>, strings, lists, module objects, functions (named by
  the module that defines them and their name there) and any other, non-callable object.
\<close>

datatype pyobj =
    PyNone
  | PyStr string
  | PyList "pyobj list"
  | PyModule string
  | PyFunction string string
  | PyOpaque nat

fun callable :: "pyobj \<Rightarrow> bool" where
  "callable (PyFunction m n) = True"
| "callable PyNone = False"
| "callable (PyStr s) = False"
| "callable (PyList xs) = False"
| "callable (PyModule m) = False"
| "callable (PyOpaque k) = False"

fun is_str :: "pyobj \<Rightarrow> bool" where
  "is_str (PyStr s) = True"
| "is_str PyNone = False"
| "is_str (PyList xs) = False"
| "is_str (PyModule m) = False"
| "is_str (PyFunction m n) = False"
| "is_str (PyOpaque k) = False"

text \<open>A module namespace (the module's \<open>__dict__\<close>) maps names to objects.\<close>

type_synonym namespace = "string \<rightharpoonup> pyobj"

text \<open>
  The exceptions of the model. \<open>ImportError n m\<close> is Python's
  "cannot import name n from m"; \<open>Raised m k\<close> stands for any exception a module body
  raises while it is being executed.
\<close>

datatype error =
    ModuleNotFoundError string
  | ImportError string string
  | AttributeError string
  | TypeError
  | Raised string nat

text \<open>
  The sibling modules \<^verbatim>\<open>datadog.py\<close>, \<^verbatim>\<open>elastic.py\<close> and \<^verbatim>\<open>acumen_elastic.py\<close> are not part
  of the unit. They enter as a parameter: a loader that, given the name of a submodule
  of the package, either fails with the exception that loading it raises or returns the
  namespace the module has after its body ran.
\<close>

type_synonym loader = "string \<Rightarrow> error + namespace"

subsection \<open>Statements and their execution\<close>

datatype expr =
    StrLit string
  | ListLit "expr list"

datatype stmt =
    ImportFrom string string
  | Assign string expr

fun eval :: "expr \<Rightarrow> pyobj" where
  "eval (StrLit s) = PyStr s"
| "eval (ListLit es) = PyList (map eval es)"

text \<open>
  \<open>ImportFrom m n\<close> is \<^verbatim>\<open>from .m import n\<close> in the package initializer. Python first
  imports the submodule \<open>m\<close> of the package; an exception raised there propagates
  unchanged. Loading a submodule places a binding for it under its own name in the
  namespace of its parent package (language reference, 5.4.2 Submodules), and the
  namespace of a package is the global namespace of its initializer. Then the attribute
  \<open>n\<close> is read from the module, raising ImportError when it is not there, and bound
  under the same name \<open>n\<close>.

  \<open>Assign x e\<close> is \<^verbatim>\<open>x = e\<close> for a literal \<open>e\<close>; it cannot fail.

  \<open>exec_stmt\<close> is the import as it runs when the package is imported for the first time:
  the submodule is not loaded yet, so the from-import loads it and its name is bound, and
  the loader is a function of the module name alone, so the body of a sibling module
  changes nothing in the package. The section on the state of the import system below
  has the interpreter without these two restrictions (\<open>step_stmt\<close>: a submodule that is
  already loaded is not bound again, and the body of a sibling module may change any
  state), and \<open>first_import_effect_free\<close> shows that the two agree where both apply.
\<close>

fun exec_stmt :: "loader \<Rightarrow> stmt \<Rightarrow> namespace \<Rightarrow> error + namespace" where
  "exec_stmt env (ImportFrom m n) ns =
     (case env m of
        Inl e \<Rightarrow> Inl e
      | Inr d \<Rightarrow>
          (case d n of
             None \<Rightarrow> Inl (ImportError n m)
           | Some v \<Rightarrow> Inr ((ns(m \<mapsto> PyModule m))(n \<mapsto> v))))"
| "exec_stmt env (Assign x e) ns = Inr (ns(x \<mapsto> eval e))"

text \<open>A module body runs its statements in order and stops at the first exception.\<close>

fun exec_stmts :: "loader \<Rightarrow> stmt list \<Rightarrow> namespace \<Rightarrow> error + namespace" where
  "exec_stmts env [] ns = Inr ns"
| "exec_stmts env (s # ss) ns =
     (case exec_stmt env s ns of
        Inl e \<Rightarrow> Inl e
      | Inr ns' \<Rightarrow> exec_stmts env ss ns')"

subsection \<open>The initializer\<close>

definition siem_init :: "stmt list" where
  "siem_init =
     [ImportFrom ''datadog'' ''list_datadog_alerts'',
      ImportFrom ''elastic'' ''list_elastic_alerts'',
      ImportFrom ''acumen_elastic'' ''acumen_list_elastic_alerts'',
      Assign ''__all__''
        (ListLit
           [StrLit ''list_datadog_alerts'',
            StrLit ''list_elastic_alerts'',
            StrLit ''acumen_list_elastic_alerts''])]"

text \<open>
  Importing the package runs the initializer in the namespace \<open>ns0\<close> that the import
  system has prepared for the package (\<open>__name__\<close>, \<open>__path__\<close> and so on).
\<close>

definition import_package :: "loader \<Rightarrow> namespace \<Rightarrow> error + namespace" where
  "import_package env ns0 = exec_stmts env siem_init ns0"

text \<open>\<^verbatim>\<open>import pkg; pkg.n\<close>: attribute access on the imported package.\<close>

definition package_getattr :: "loader \<Rightarrow> namespace \<Rightarrow> string \<Rightarrow> error + pyobj" where
  "package_getattr env ns0 n =
     (case import_package env ns0 of
        Inl e \<Rightarrow> Inl e
      | Inr ns \<Rightarrow> (case ns n of None \<Rightarrow> Inl (AttributeError n) | Some v \<Rightarrow> Inr v))"

text \<open>The names a list of statements imports, and the modules it imports from, in order.\<close>

fun imported_names :: "stmt list \<Rightarrow> string list" where
  "imported_names [] = []"
| "imported_names (ImportFrom m n # ss) = n # imported_names ss"
| "imported_names (Assign x e # ss) = imported_names ss"

fun imported_modules :: "stmt list \<Rightarrow> string list" where
  "imported_modules [] = []"
| "imported_modules (ImportFrom m n # ss) = m # imported_modules ss"
| "imported_modules (Assign x e # ss) = imported_modules ss"

subsection \<open>Star-import\<close>

text \<open>
  \<^verbatim>\<open>from pkg import *\<close> into a namespace \<open>tgt\<close>. When the package defines \<open>__all__\<close>,
  its entries are taken in order: an entry that is not a string raises TypeError, a name
  that is not an attribute of the package raises AttributeError, and otherwise the name
  is bound in \<open>tgt\<close> to the package's object. Without \<open>__all__\<close> every name of the
  package that does not start with an underscore is bound. A value of \<open>__all__\<close> that is
  not a list is outside what the initializer produces and is rejected.

  For a listed name that is not an attribute of the package, Python first tries to import
  a submodule of that name and fails only when there is none. That attempt is left out
  here, so \<open>bind_star\<close> fails at least as often as Python does.
\<close>

fun bind_star :: "namespace \<Rightarrow> pyobj list \<Rightarrow> namespace \<Rightarrow> error + namespace" where
  "bind_star pkg [] tgt = Inr tgt"
| "bind_star pkg (PyStr n # xs) tgt =
     (case pkg n of
        None \<Rightarrow> Inl (AttributeError n)
      | Some v \<Rightarrow> bind_star pkg xs (tgt(n \<mapsto> v)))"
| "bind_star pkg (x # xs) tgt = Inl TypeError"

definition public_names :: "namespace \<Rightarrow> string set" where
  "public_names pkg = {n. n \<in> dom pkg \<and> take 1 n \<noteq> ''_''}"

definition star_import :: "loader \<Rightarrow> namespace \<Rightarrow> namespace \<Rightarrow> error + namespace" where
  "star_import env ns0 tgt =
     (case import_package env ns0 of
        Inl e \<Rightarrow> Inl e
      | Inr pkg \<Rightarrow>
          (case pkg ''__all__'' of
             None \<Rightarrow> Inr (tgt ++ (pkg |` public_names pkg))
           | Some (PyList xs) \<Rightarrow> bind_star pkg xs tgt
           | Some other \<Rightarrow> Inl TypeError))"

subsection \<open>The sibling modules as the specification describes them\<close>

text \<open>
  Modelled from the spec: the sibling modules \<^verbatim>\<open>datadog.py\<close>, \<^verbatim>\<open>elastic.py\<close> and
  \<^verbatim>\<open>acumen_elastic.py\<close> are missing from the source. The specification says that the
  package re-exports the three functions \<open>list_datadog_alerts\<close>, \<open>list_elastic_alerts\<close>
  and \<open>acumen_list_elastic_alerts\<close> from these sibling modules, each a callable that
  queries a SIEM backend for alerts. So each sibling module loads and defines its
  function; the package has no other submodule.
\<close>

definition spec_siblings :: loader where
  "spec_siblings m =
     (if m = ''datadog'' then
        Inr [''list_datadog_alerts'' \<mapsto> PyFunction ''datadog'' ''list_datadog_alerts'']
      else if m = ''elastic'' then
        Inr [''list_elastic_alerts'' \<mapsto> PyFunction ''elastic'' ''list_elastic_alerts'']
      else if m = ''acumen_elastic'' then
        Inr [''acumen_list_elastic_alerts'' \<mapsto>
               PyFunction ''acumen_elastic'' ''acumen_list_elastic_alerts'']
      else Inl (ModuleNotFoundError m))"

subsection \<open>The state of the import system\<close>

text \<open>
  What an import can change: the namespace of the package (the global namespace of the
  initializer), the table of the submodules of the package that are loaded already
  (their entries of \<open>sys.modules\<close>, each with its namespace), and all other state of the
  program.
\<close>

record 'w world =
  globals :: namespace
  loaded :: "string \<rightharpoonup> namespace"
  rest :: 'w

text \<open>
  Running the body of a submodule that is not loaded yet either raises or yields the
  namespace of the module and the state its execution leaves: the body may load further
  submodules, bind names in the package and change any other state. The bodies of the
  sibling modules are not part of the unit, so this is a parameter.
\<close>

type_synonym 'w runner = "string \<Rightarrow> 'w world \<Rightarrow> error + namespace \<times> 'w world"

text \<open>
  Importing the submodule \<open>m\<close>. A submodule that is loaded already is taken from the
  table and nothing changes. Otherwise its body runs; then the module is recorded as
  loaded and bound under its own name in the namespace of the package. (Python enters
  the module into \<open>sys.modules\<close> before its body runs and removes it again when the body
  raises; what the body sees of this is part of the parameter.) An import that raises
  yields the exception only: the state that a failed import leaves is not represented.
\<close>

definition import_submodule ::
  "'w runner \<Rightarrow> string \<Rightarrow> 'w world \<Rightarrow> error + namespace \<times> 'w world" where
  "import_submodule run m w =
     (case loaded w m of
        Some d \<Rightarrow> Inr (d, w)
      | None \<Rightarrow>
          (case run m w of
             Inl e \<Rightarrow> Inl e
           | Inr (d, w') \<Rightarrow>
               Inr (d, w'\<lparr>loaded := (loaded w')(m \<mapsto> d),
                         globals := (globals w')(m \<mapsto> PyModule m)\<rparr>)))"

text \<open>The statements of the initializer, run on this state.\<close>

fun step_stmt :: "'w runner \<Rightarrow> stmt \<Rightarrow> 'w world \<Rightarrow> error + 'w world" where
  "step_stmt run (ImportFrom m n) w =
     (case import_submodule run m w of
        Inl e \<Rightarrow> Inl e
      | Inr (d, w') \<Rightarrow>
          (case d n of
             None \<Rightarrow> Inl (ImportError n m)
           | Some v \<Rightarrow> Inr (w'\<lparr>globals := (globals w')(n \<mapsto> v)\<rparr>)))"
| "step_stmt run (Assign x e) w = Inr (w\<lparr>globals := (globals w)(x \<mapsto> eval e)\<rparr>)"

fun step_stmts :: "'w runner \<Rightarrow> stmt list \<Rightarrow> 'w world \<Rightarrow> error + 'w world" where
  "step_stmts run [] w = Inr w"
| "step_stmts run (s # ss) w =
     (case step_stmt run s w of
        Inl e \<Rightarrow> Inl e
      | Inr w' \<Rightarrow> step_stmts run ss w')"

definition import_package_world :: "'w runner \<Rightarrow> 'w world \<Rightarrow> error + 'w world" where
  "import_package_world run w0 = step_stmts run siem_init w0"

text \<open>The name a statement itself binds.\<close>

fun target :: "stmt \<Rightarrow> string" where
  "target (ImportFrom m n) = n"
| "target (Assign x e) = x"

text \<open>A loader without effects, as a runner: the body yields its namespace and changes nothing.\<close>

definition pure_run :: "loader \<Rightarrow> 'w runner" where
  "pure_run env m w = (case env m of Inl e \<Rightarrow> Inl e | Inr d \<Rightarrow> Inr (d, w))"

text \<open>
  Two examples of a state before the import, and one of sibling modules with an effect.
  \<open>fresh_world\<close>: nothing is loaded, the package is imported for the first time.
  \<open>siblings_loaded_world\<close>: the three sibling modules are loaded and the namespace of
  the package is new, as when the package is imported again after its own entry was
  removed from \<open>sys.modules\<close>. \<open>siblings_with_helper\<close>: the body of \<open>datadog\<close> imports
  a further submodule \<open>helper\<close> of the package, which is thereby recorded as loaded and
  bound in the package; the other sibling modules are as the specification describes them.
\<close>

definition fresh_world :: "nat world" where
  "fresh_world = \<lparr>globals = Map.empty, loaded = Map.empty, rest = 0\<rparr>"

definition siblings_loaded_world :: "nat world" where
  "siblings_loaded_world =
     \<lparr>globals = Map.empty,
      loaded =
        [''datadog'' \<mapsto>
           [''list_datadog_alerts'' \<mapsto> PyFunction ''datadog'' ''list_datadog_alerts''],
         ''elastic'' \<mapsto>
           [''list_elastic_alerts'' \<mapsto> PyFunction ''elastic'' ''list_elastic_alerts''],
         ''acumen_elastic'' \<mapsto>
           [''acumen_list_elastic_alerts'' \<mapsto>
              PyFunction ''acumen_elastic'' ''acumen_list_elastic_alerts'']],
      rest = 0\<rparr>"

definition siblings_with_helper :: "'w runner" where
  "siblings_with_helper m w =
     (if m = ''datadog'' then
        Inr ([''list_datadog_alerts'' \<mapsto> PyFunction ''datadog'' ''list_datadog_alerts''],
             w\<lparr>loaded := (loaded w)(''helper'' \<mapsto> [''h'' \<mapsto> PyFunction ''helper'' ''h'']),
               globals := (globals w)(''helper'' \<mapsto> PyModule ''helper'')\<rparr>)
      else pure_run spec_siblings m w)"

subsection \<open>Calling an exported name\<close>




section \<open>Properties\<close>

subsection \<open>The interpreter, for any list of statements\<close>




lemma imported_modules_Cons:
  "set (imported_modules (s # ss)) = set (imported_modules [s]) \<union> set (imported_modules ss)"
  by (cases s) simp_all

text \<open>
  On the state of the import system: an observation of the state that neither the loads
  of the imported modules nor the bindings of the statements' own names change is the
  same after the statements as before.
\<close>

lemma step_stmt_obs:
  assumes "step_stmt run s w = Inr w'"
    and "\<And>m w1 d w2. m \<in> set (imported_modules [s]) \<Longrightarrow>
           import_submodule run m w1 = Inr (d, w2) \<Longrightarrow> obs w2 = obs w1"
    and "\<And>v w1. obs (w1\<lparr>globals := (globals w1)(target s \<mapsto> v)\<rparr>) = obs w1"
  shows "obs w' = obs w"
proof (cases s)
  case (ImportFrom m n)
  with assms(1) obtain d w1 v where
    i: "import_submodule run m w = Inr (d, w1)" and
    w': "w' = w1\<lparr>globals := (globals w1)(n \<mapsto> v)\<rparr>"
    by (auto split: sum.splits option.splits)
  from assms(2) [OF _ i] ImportFrom have "obs w1 = obs w" by simp
  moreover from assms(3) [of w1 v] ImportFrom w' have "obs w' = obs w1" by simp
  ultimately show ?thesis by simp
next
  case (Assign x e)
  with assms(1) have "w' = w\<lparr>globals := (globals w)(x \<mapsto> eval e)\<rparr>" by simp
  with assms(3) [of w "eval e"] Assign show ?thesis by simp
qed

lemma step_stmts_obs:
  assumes "step_stmts run ss w = Inr w'"
    and "\<And>m w1 d w2. m \<in> set (imported_modules ss) \<Longrightarrow>
           import_submodule run m w1 = Inr (d, w2) \<Longrightarrow> obs w2 = obs w1"
    and "\<And>x v w1. x \<in> set (map target ss) \<Longrightarrow>
           obs (w1\<lparr>globals := (globals w1)(x \<mapsto> v)\<rparr>) = obs w1"
  shows "obs w' = obs w"
  using assms
proof (induction ss arbitrary: w)
  case Nil
  then show ?case by simp
next
  case (Cons s ss)
  from Cons.prems(1) obtain w1 where
    s: "step_stmt run s w = Inr w1" and ss: "step_stmts run ss w1 = Inr w'"
    by (auto split: sum.splits)
  have "obs w1 = obs w"
  proof (rule step_stmt_obs [OF s])
    fix m w1 d w2
    assume "m \<in> set (imported_modules [s])" "import_submodule run m w1 = Inr (d, w2)"
    then show "obs w2 = obs w1"
      using Cons.prems(2) [of m w1 d w2] by (simp add: imported_modules_Cons [of s ss])
  next
    fix v w1
    show "obs (w1\<lparr>globals := (globals w1)(target s \<mapsto> v)\<rparr>) = obs w1"
      by (intro Cons.prems(3)) simp
  qed
  moreover have "obs w' = obs w1"
  proof (rule Cons.IH [OF ss])
    fix m w1 d w2
    assume "m \<in> set (imported_modules ss)" "import_submodule run m w1 = Inr (d, w2)"
    then show "obs w2 = obs w1"
      using Cons.prems(2) [of m w1 d w2] by (simp add: imported_modules_Cons [of s ss])
  next
    fix x v w1
    assume "x \<in> set (map target ss)"
    then show "obs (w1\<lparr>globals := (globals w1)(x \<mapsto> v)\<rparr>) = obs w1"
      by (intro Cons.prems(3)) simp
  qed
  ultimately show ?case by simp
qed

text \<open>
  When the imported modules are loaded already, the statements change the namespace of the
  package at their own names and nothing else.
\<close>

lemma step_stmt_loaded:
  assumes "step_stmt run s w = Inr w'" and "set (imported_modules [s]) \<subseteq> dom (loaded w)"
  shows "\<exists>v. w' = w\<lparr>globals := (globals w)(target s \<mapsto> v)\<rparr>"
  using assms
  by (cases s) (auto simp: import_submodule_def split: sum.splits option.splits)

lemma step_stmts_loaded:
  assumes "step_stmts run ss w = Inr w'" and "set (imported_modules ss) \<subseteq> dom (loaded w)"
  shows "rest w' = rest w \<and> loaded w' = loaded w \<and>
         dom (globals w') = dom (globals w) \<union> set (map target ss) \<and>
         (\<forall>x. x \<notin> set (map target ss) \<longrightarrow> globals w' x = globals w x)"
  using assms
proof (induction ss arbitrary: w)
  case Nil
  then show ?case by simp
next
  case (Cons s ss)
  from Cons.prems(1) obtain w1 where
    s: "step_stmt run s w = Inr w1" and ss: "step_stmts run ss w1 = Inr w'"
    by (auto split: sum.splits)
  from Cons.prems(2) have l: "set (imported_modules [s]) \<subseteq> dom (loaded w)"
    and l': "set (imported_modules ss) \<subseteq> dom (loaded w)"
    by (simp_all add: imported_modules_Cons [of s ss])
  from step_stmt_loaded [OF s l] obtain v where
    w1: "w1 = w\<lparr>globals := (globals w)(target s \<mapsto> v)\<rparr>" by blast
  from l' w1 have "set (imported_modules ss) \<subseteq> dom (loaded w1)" by simp
  from Cons.IH [OF ss this] w1 show ?case by auto
qed

text \<open>
  With modules that are not loaded yet and whose bodies have no effect, the namespace
  that \<open>step_stmts\<close> leaves is the one of \<open>exec_stmts\<close>.
\<close>

lemma import_submodule_pure_rest:
  assumes "import_submodule (pure_run env) m w1 = Inr (d, w2)"
  shows "rest w2 = rest w1"
  using assms
  by (auto simp: import_submodule_def pure_run_def split: option.splits sum.splits)

lemma step_stmt_pure:
  assumes "set (imported_modules [s]) \<inter> dom (loaded w) = {}"
  shows "(case step_stmt (pure_run env) s w of
            Inl e \<Rightarrow> exec_stmt env s (globals w) = Inl e
          | Inr w' \<Rightarrow> exec_stmt env s (globals w) = Inr (globals w') \<and>
               dom (loaded w') = dom (loaded w) \<union> set (imported_modules [s]))"
  using assms
  by (cases s)
     (auto simp: import_submodule_def pure_run_def split: option.splits sum.splits)

lemma step_stmts_pure:
  assumes "distinct (imported_modules ss)"
    and "set (imported_modules ss) \<inter> dom (loaded w) = {}"
  shows "map_sum id globals (step_stmts (pure_run env) ss w) = exec_stmts env ss (globals w)"
  using assms
proof (induction ss arbitrary: w)
  case Nil
  then show ?case by simp
next
  case (Cons s ss)
  from Cons.prems(2) have s: "set (imported_modules [s]) \<inter> dom (loaded w) = {}"
    by (auto simp: imported_modules_Cons [of s ss])
  show ?case
  proof (cases "step_stmt (pure_run env) s w")
    case (Inl e)
    with step_stmt_pure [OF s, of env] show ?thesis by simp
  next
    case (Inr w')
    with step_stmt_pure [OF s, of env] have
      e: "exec_stmt env s (globals w) = Inr (globals w')" and
      l: "dom (loaded w') = dom (loaded w) \<union> set (imported_modules [s])"
      by simp_all
    from Cons.prems(1) have d: "distinct (imported_modules ss)"
      and n: "set (imported_modules [s]) \<inter> set (imported_modules ss) = {}"
      by (cases s; simp)+
    from Cons.prems(2) n l have "set (imported_modules ss) \<inter> dom (loaded w') = {}"
      by (auto simp: imported_modules_Cons [of s ss])
    from Cons.IH [OF d this] Inr e show ?thesis by simp
  qed
qed

subsection \<open>What a run of the initializer is\<close>

lemma import_package_Inr:
  assumes "import_package env ns0 = Inr ns"
  shows "\<exists>d e a v1 v2 v3.
           env ''datadog'' = Inr d \<and> d ''list_datadog_alerts'' = Some v1 \<and>
           env ''elastic'' = Inr e \<and> e ''list_elastic_alerts'' = Some v2 \<and>
           env ''acumen_elastic'' = Inr a \<and> a ''acumen_list_elastic_alerts'' = Some v3 \<and>
           ns = ns0(''datadog'' \<mapsto> PyModule ''datadog'',
                    ''list_datadog_alerts'' \<mapsto> v1,
                    ''elastic'' \<mapsto> PyModule ''elastic'',
                    ''list_elastic_alerts'' \<mapsto> v2,
                    ''acumen_elastic'' \<mapsto> PyModule ''acumen_elastic'',
                    ''acumen_list_elastic_alerts'' \<mapsto> v3,
                    ''__all__'' \<mapsto> PyList [PyStr ''list_datadog_alerts'',
                                            PyStr ''list_elastic_alerts'',
                                            PyStr ''acumen_list_elastic_alerts''])"
  using assms
  unfolding import_package_def siem_init_def
  by (simp split: sum.splits option.splits)


lemma import_prefix_Inr:
  assumes "import_package env ns0 = Inr ns"
  shows "\<exists>ns3. exec_stmts env (take 3 siem_init) ns0 = Inr ns3 \<and>
           {''list_datadog_alerts'', ''list_elastic_alerts'',
            ''acumen_list_elastic_alerts''} \<subseteq> dom ns3 \<and>
           {''list_datadog_alerts'', ''list_elastic_alerts'',
            ''acumen_list_elastic_alerts''} \<subseteq> dom ns"
  using assms
  unfolding import_package_def siem_init_def
  by (simp split: sum.splits option.splits) auto


lemma star_import_Inr:
  assumes "import_package env ns0 = Inr ns"
  shows "\<exists>v1 v2 v3.
           star_import env ns0 tgt =
             Inr (tgt(''list_datadog_alerts'' \<mapsto> v1,
                      ''list_elastic_alerts'' \<mapsto> v2,
                      ''acumen_list_elastic_alerts'' \<mapsto> v3))"
proof -
  from import_package_Inr [OF assms] obtain v1 v2 v3 where
    ns: "ns = ns0(''datadog'' \<mapsto> PyModule ''datadog'',
                    ''list_datadog_alerts'' \<mapsto> v1,
                    ''elastic'' \<mapsto> PyModule ''elastic'',
                    ''list_elastic_alerts'' \<mapsto> v2,
                    ''acumen_elastic'' \<mapsto> PyModule ''acumen_elastic'',
                    ''acumen_list_elastic_alerts'' \<mapsto> v3,
                    ''__all__'' \<mapsto> PyList [PyStr ''list_datadog_alerts'',
                                            PyStr ''list_elastic_alerts'',
                                            PyStr ''acumen_list_elastic_alerts''])"
    by blast
  have "star_import env ns0 tgt =
          Inr (tgt(''list_datadog_alerts'' \<mapsto> v1,
                   ''list_elastic_alerts'' \<mapsto> v2,
                   ''acumen_list_elastic_alerts'' \<mapsto> v3))"
    unfolding star_import_def assms by (simp add: ns)
  then show ?thesis by blast
qed

lemma imported_names_siem_init:
  "imported_names siem_init =
     [''list_datadog_alerts'', ''list_elastic_alerts'', ''acumen_list_elastic_alerts'']"
  unfolding siem_init_def by simp

lemma imported_modules_siem_init:
  "set (imported_modules siem_init) = {''datadog'', ''elastic'', ''acumen_elastic''}"
  unfolding siem_init_def by simp

lemma target_siem_init:
  "set (map target siem_init) =
     {''list_datadog_alerts'', ''list_elastic_alerts'', ''acumen_list_elastic_alerts'',
      ''__all__''}"
  unfolding siem_init_def by auto

lemma siem_init_shape:
  "siem_init =
     map2 ImportFrom (imported_modules siem_init) (imported_names siem_init) @
     [Assign ''__all__'' (ListLit (map StrLit (imported_names siem_init)))]"
  unfolding siem_init_def by simp

lemma import_package_spec:
  "import_package spec_siblings ns0 =
     Inr (ns0(''datadog'' \<mapsto> PyModule ''datadog'',
              ''list_datadog_alerts'' \<mapsto> PyFunction ''datadog'' ''list_datadog_alerts'',
              ''elastic'' \<mapsto> PyModule ''elastic'',
              ''list_elastic_alerts'' \<mapsto> PyFunction ''elastic'' ''list_elastic_alerts'',
              ''acumen_elastic'' \<mapsto> PyModule ''acumen_elastic'',
              ''acumen_list_elastic_alerts'' \<mapsto>
                 PyFunction ''acumen_elastic'' ''acumen_list_elastic_alerts'',
              ''__all__'' \<mapsto> PyList [PyStr ''list_datadog_alerts'',
                                      PyStr ''list_elastic_alerts'',
                                      PyStr ''acumen_list_elastic_alerts'']))"
  unfolding import_package_def siem_init_def spec_siblings_def
  by simp






text \<open>
  The first import of the package with sibling modules whose bodies have no effect: the
  namespace of the package and the exception are those of \<open>import_package\<close>.
\<close>

lemma first_import_effect_free:
  assumes "{''datadog'', ''elastic'', ''acumen_elastic''} \<inter> dom (loaded w0) = {}"
  shows "map_sum id globals (import_package_world (pure_run env) w0) =
         import_package env (globals w0)"
proof -
  have d: "distinct (imported_modules siem_init)"
    unfolding siem_init_def by simp
  from assms have "set (imported_modules siem_init) \<inter> dom (loaded w0) = {}"
    unfolding imported_modules_siem_init .
  from step_stmts_pure [OF d this] show ?thesis
    by (simp add: import_package_world_def import_package_def)
qed

text \<open>
  The import on the examples. The first import binds the three submodule names besides
  the four names of the initializer; an import that finds the three sibling modules
  loaded binds the four names only; a sibling module that imports a further submodule
  has that one bound in the package as well.
\<close>

lemma first_import_spec:
  "import_package_world (pure_run spec_siblings)
     \<lparr>globals = g, loaded = Map.empty, rest = r\<rparr> =
   Inr \<lparr>globals = g(''datadog'' \<mapsto> PyModule ''datadog'',
              ''list_datadog_alerts'' \<mapsto> PyFunction ''datadog'' ''list_datadog_alerts'',
              ''elastic'' \<mapsto> PyModule ''elastic'',
              ''list_elastic_alerts'' \<mapsto> PyFunction ''elastic'' ''list_elastic_alerts'',
              ''acumen_elastic'' \<mapsto> PyModule ''acumen_elastic'',
              ''acumen_list_elastic_alerts'' \<mapsto>
                 PyFunction ''acumen_elastic'' ''acumen_list_elastic_alerts'',
              ''__all__'' \<mapsto> PyList [PyStr ''list_datadog_alerts'',
                                      PyStr ''list_elastic_alerts'',
                                      PyStr ''acumen_list_elastic_alerts'']),
        loaded =
          [''datadog'' \<mapsto>
             [''list_datadog_alerts'' \<mapsto> PyFunction ''datadog'' ''list_datadog_alerts''],
           ''elastic'' \<mapsto>
             [''list_elastic_alerts'' \<mapsto> PyFunction ''elastic'' ''list_elastic_alerts''],
           ''acumen_elastic'' \<mapsto>
             [''acumen_list_elastic_alerts'' \<mapsto>
                PyFunction ''acumen_elastic'' ''acumen_list_elastic_alerts'']],
        rest = r\<rparr>"
  unfolding import_package_world_def siem_init_def
  by (simp add: import_submodule_def pure_run_def spec_siblings_def)

lemma reimport_spec:
  "import_package_world run
     \<lparr>globals = g,
      loaded =
          [''datadog'' \<mapsto>
             [''list_datadog_alerts'' \<mapsto> PyFunction ''datadog'' ''list_datadog_alerts''],
           ''elastic'' \<mapsto>
             [''list_elastic_alerts'' \<mapsto> PyFunction ''elastic'' ''list_elastic_alerts''],
           ''acumen_elastic'' \<mapsto>
             [''acumen_list_elastic_alerts'' \<mapsto>
                PyFunction ''acumen_elastic'' ''acumen_list_elastic_alerts'']],
      rest = r\<rparr> =
   Inr \<lparr>globals = g(''list_datadog_alerts'' \<mapsto> PyFunction ''datadog'' ''list_datadog_alerts'',
              ''list_elastic_alerts'' \<mapsto> PyFunction ''elastic'' ''list_elastic_alerts'',
              ''acumen_list_elastic_alerts'' \<mapsto>
                 PyFunction ''acumen_elastic'' ''acumen_list_elastic_alerts'',
              ''__all__'' \<mapsto> PyList [PyStr ''list_datadog_alerts'',
                                      PyStr ''list_elastic_alerts'',
                                      PyStr ''acumen_list_elastic_alerts'']),
        loaded =
          [''datadog'' \<mapsto>
             [''list_datadog_alerts'' \<mapsto> PyFunction ''datadog'' ''list_datadog_alerts''],
           ''elastic'' \<mapsto>
             [''list_elastic_alerts'' \<mapsto> PyFunction ''elastic'' ''list_elastic_alerts''],
           ''acumen_elastic'' \<mapsto>
             [''acumen_list_elastic_alerts'' \<mapsto>
                PyFunction ''acumen_elastic'' ''acumen_list_elastic_alerts'']],
        rest = r\<rparr>"
  unfolding import_package_world_def siem_init_def
  by (simp add: import_submodule_def)

lemma import_submodule_helper_rest:
  assumes "import_submodule siblings_with_helper m w1 = Inr (d, w2)"
  shows "rest w2 = rest w1"
  using assms
  by (auto simp: import_submodule_def siblings_with_helper_def pure_run_def
           split: option.splits sum.splits if_splits)

lemma first_import_with_helper:
  "\<exists>w. import_package_world siblings_with_helper fresh_world = Inr w \<and>
       globals w ''helper'' = Some (PyModule ''helper'') \<and>
       globals w ''datadog'' = Some (PyModule ''datadog'') \<and>
       dom (globals w) =
         {''list_datadog_alerts'', ''list_elastic_alerts'', ''acumen_list_elastic_alerts'',
          ''__all__'', ''datadog'', ''elastic'', ''acumen_elastic'', ''helper''}"
  unfolding import_package_world_def siem_init_def fresh_world_def
  by (simp add: import_submodule_def siblings_with_helper_def pure_run_def spec_siblings_def)
     auto

lemma reimport_loaded:
  "\<exists>w. import_package_world run siblings_loaded_world = Inr w \<and>
       globals w ''datadog'' = None"
  unfolding import_package_world_def siem_init_def siblings_loaded_world_def
  by (simp add: import_submodule_def)

lemma siblings_loaded:
  "{''datadog'', ''elastic'', ''acumen_elastic''} \<subseteq> dom (loaded siblings_loaded_world)"
  unfolding siblings_loaded_world_def by simp

subsection \<open>The export list\<close>

text \<open>
  Claim C1. After the package has been imported, the names listed in \<open>__all__\<close> are
  exactly \<open>list_datadog_alerts\<close>, \<open>list_elastic_alerts\<close> and
  \<open>acumen_list_elastic_alerts\<close>: each of the three is listed, nothing else is, and the
  set has three elements.
\<close>

theorem export_list_exact:
  assumes "import_package env ns0 = Inr ns"
  shows "\<exists>xs. ns ''__all__'' = Some (PyList (map PyStr xs)) \<and>
           set xs = {''list_datadog_alerts'', ''list_elastic_alerts'',
                     ''acumen_list_elastic_alerts''} \<and>
           card (set xs) = 3"
proof -
  from import_package_Inr [OF assms]
  have "ns ''__all__'' =
          Some (PyList (map PyStr [''list_datadog_alerts'', ''list_elastic_alerts'',
                                   ''acumen_list_elastic_alerts'']))"
    by auto
  then show ?thesis by (intro exI conjI, assumption) simp_all
qed

theorem export_list_exact_witness:
  "\<exists>ns. import_package spec_siblings Map.empty = Inr ns \<and>
     (\<exists>xs. ns ''__all__'' = Some (PyList (map PyStr xs)) \<and>
        set xs = {''list_datadog_alerts'', ''list_elastic_alerts'',
                  ''acumen_list_elastic_alerts''} \<and>
        card (set xs) = 3)"
  using export_list_exact [OF import_package_spec [of Map.empty]]
    import_package_spec [of Map.empty]
  by blast

text \<open>
  Claim C7. The export list \<open>__all__\<close> has exactly three entries, every entry is a
  string, and no entry occurs twice.
\<close>

theorem export_list_three_distinct_strings:
  assumes "import_package env ns0 = Inr ns"
  shows "\<exists>xs. ns ''__all__'' = Some (PyList xs) \<and> length xs = 3 \<and>
           list_all is_str xs \<and> distinct xs"
proof -
  from import_package_Inr [OF assms]
  have "ns ''__all__'' =
          Some (PyList [PyStr ''list_datadog_alerts'', PyStr ''list_elastic_alerts'',
                        PyStr ''acumen_list_elastic_alerts''])"
    by auto
  then show ?thesis by (intro exI conjI, assumption) simp_all
qed

theorem export_list_three_distinct_strings_witness:
  "\<exists>ns. import_package spec_siblings Map.empty = Inr ns \<and>
     (\<exists>xs. ns ''__all__'' = Some (PyList xs) \<and> length xs = 3 \<and>
        list_all is_str xs \<and> distinct xs)"
  using export_list_three_distinct_strings [OF import_package_spec [of Map.empty]]
    import_package_spec [of Map.empty]
  by blast

text \<open>
  Claim C8. The entries of \<open>__all__\<close> stand in the order of the import statements:
  \<open>list_datadog_alerts\<close> first, \<open>list_elastic_alerts\<close> second,
  \<open>acumen_list_elastic_alerts\<close> third.
\<close>

theorem export_list_in_import_order:
  assumes "import_package env ns0 = Inr ns"
  shows "ns ''__all__'' = Some (PyList (map PyStr (imported_names siem_init))) \<and>
         imported_names siem_init =
           [''list_datadog_alerts'', ''list_elastic_alerts'', ''acumen_list_elastic_alerts'']"
proof -
  from import_package_Inr [OF assms]
  have "ns ''__all__'' =
          Some (PyList [PyStr ''list_datadog_alerts'', PyStr ''list_elastic_alerts'',
                        PyStr ''acumen_list_elastic_alerts''])"
    by auto
  then show ?thesis by (simp add: imported_names_siem_init)
qed

theorem export_list_in_import_order_witness:
  "\<exists>ns. import_package spec_siblings Map.empty = Inr ns \<and>
     ns ''__all__'' = Some (PyList (map PyStr (imported_names siem_init))) \<and>
     imported_names siem_init =
       [''list_datadog_alerts'', ''list_elastic_alerts'', ''acumen_list_elastic_alerts'']"
  using export_list_in_import_order [OF import_package_spec [of Map.empty]]
    import_package_spec [of Map.empty]
  by blast

subsection \<open>The re-exported objects\<close>

text \<open>
  Claim C2. The package re-exports three objects from its sibling modules, each under
  its original name: \<open>list_datadog_alerts\<close> is the object that the module \<open>datadog\<close>
  defines under that name, \<open>list_elastic_alerts\<close> the one of \<open>elastic\<close>, and
  \<open>acumen_list_elastic_alerts\<close> the one of \<open>acumen_elastic\<close>. The package binds the very
  object of the sibling module: nothing is wrapped and nothing is renamed.
\<close>

theorem reexport_identity:
  assumes "import_package env ns0 = Inr ns"
  shows "\<exists>d e a.
           env ''datadog'' = Inr d \<and> env ''elastic'' = Inr e \<and> env ''acumen_elastic'' = Inr a \<and>
           d ''list_datadog_alerts'' \<noteq> None \<and>
           ns ''list_datadog_alerts'' = d ''list_datadog_alerts'' \<and>
           e ''list_elastic_alerts'' \<noteq> None \<and>
           ns ''list_elastic_alerts'' = e ''list_elastic_alerts'' \<and>
           a ''acumen_list_elastic_alerts'' \<noteq> None \<and>
           ns ''acumen_list_elastic_alerts'' = a ''acumen_list_elastic_alerts''"
proof -
  from import_package_Inr [OF assms] obtain d e a v1 v2 v3 where
    d: "env ''datadog'' = Inr d" "d ''list_datadog_alerts'' = Some v1" and
    e: "env ''elastic'' = Inr e" "e ''list_elastic_alerts'' = Some v2" and
    a: "env ''acumen_elastic'' = Inr a" "a ''acumen_list_elastic_alerts'' = Some v3" and
    ns: "ns = ns0(''datadog'' \<mapsto> PyModule ''datadog'',
                    ''list_datadog_alerts'' \<mapsto> v1,
                    ''elastic'' \<mapsto> PyModule ''elastic'',
                    ''list_elastic_alerts'' \<mapsto> v2,
                    ''acumen_elastic'' \<mapsto> PyModule ''acumen_elastic'',
                    ''acumen_list_elastic_alerts'' \<mapsto> v3,
                    ''__all__'' \<mapsto> PyList [PyStr ''list_datadog_alerts'',
                                            PyStr ''list_elastic_alerts'',
                                            PyStr ''acumen_list_elastic_alerts''])"
    by blast
  have "ns ''list_datadog_alerts'' = Some v1" by (simp add: ns)
  moreover have "ns ''list_elastic_alerts'' = Some v2" by (simp add: ns)
  moreover have "ns ''acumen_list_elastic_alerts'' = Some v3" by (simp add: ns)
  ultimately show ?thesis using d e a by simp
qed

theorem reexport_identity_witness:
  "\<exists>ns d e a.
     import_package spec_siblings Map.empty = Inr ns \<and>
     spec_siblings ''datadog'' = Inr d \<and> spec_siblings ''elastic'' = Inr e \<and>
     spec_siblings ''acumen_elastic'' = Inr a \<and>
     d ''list_datadog_alerts'' \<noteq> None \<and>
     ns ''list_datadog_alerts'' = d ''list_datadog_alerts'' \<and>
     e ''list_elastic_alerts'' \<noteq> None \<and>
     ns ''list_elastic_alerts'' = e ''list_elastic_alerts'' \<and>
     a ''acumen_list_elastic_alerts'' \<noteq> None \<and>
     ns ''acumen_list_elastic_alerts'' = a ''acumen_list_elastic_alerts''"
  using reexport_identity [OF import_package_spec [of Map.empty]]
    import_package_spec [of Map.empty]
  by blast

text \<open>
  Claim C4. With the sibling modules as the specification describes them, importing the
  package succeeds, and each of the three exported names resolves, as an attribute of the
  package, to an object that is not \<open>None\<close> and is callable.
\<close>

theorem import_succeeds_callables:
  "(\<exists>ns. import_package spec_siblings ns0 = Inr ns) \<and>
   (\<exists>f. package_getattr spec_siblings ns0 ''list_datadog_alerts'' = Inr f \<and>
      f \<noteq> PyNone \<and> callable f) \<and>
   (\<exists>f. package_getattr spec_siblings ns0 ''list_elastic_alerts'' = Inr f \<and>
      f \<noteq> PyNone \<and> callable f) \<and>
   (\<exists>f. package_getattr spec_siblings ns0 ''acumen_list_elastic_alerts'' = Inr f \<and>
      f \<noteq> PyNone \<and> callable f)"
  by (simp add: package_getattr_def import_package_spec)

subsection \<open>Star-import of the package\<close>

text \<open>
  Claim C3. No name other than the three is exposed through the public interface: a name
  outside \<open>{list_datadog_alerts, list_elastic_alerts, acumen_list_elastic_alerts}\<close> is
  not an entry of \<open>__all__\<close>, and a star-import of the package leaves such a name in the
  importing namespace as it was.
\<close>

theorem nothing_else_exported:
  assumes "import_package env ns0 = Inr ns"
    and "n \<notin> {''list_datadog_alerts'', ''list_elastic_alerts'',
               ''acumen_list_elastic_alerts''}"
  shows "(\<exists>xs. ns ''__all__'' = Some (PyList xs) \<and> PyStr n \<notin> set xs) \<and>
         (\<exists>tgt'. star_import env ns0 tgt = Inr tgt' \<and> tgt' n = tgt n)"
proof
  from import_package_Inr [OF assms(1)]
  have "ns ''__all__'' =
          Some (PyList [PyStr ''list_datadog_alerts'', PyStr ''list_elastic_alerts'',
                        PyStr ''acumen_list_elastic_alerts''])"
    by auto
  moreover have "PyStr n \<notin> set [PyStr ''list_datadog_alerts'', PyStr ''list_elastic_alerts'',
                                   PyStr ''acumen_list_elastic_alerts'']"
    using assms(2) by simp
  ultimately show "\<exists>xs. ns ''__all__'' = Some (PyList xs) \<and> PyStr n \<notin> set xs"
    by blast
next
  from star_import_Inr [OF assms(1), of tgt] obtain v1 v2 v3 where
    s: "star_import env ns0 tgt =
          Inr (tgt(''list_datadog_alerts'' \<mapsto> v1,
                   ''list_elastic_alerts'' \<mapsto> v2,
                   ''acumen_list_elastic_alerts'' \<mapsto> v3))"
    by blast
  have "(tgt(''list_datadog_alerts'' \<mapsto> v1,
             ''list_elastic_alerts'' \<mapsto> v2,
             ''acumen_list_elastic_alerts'' \<mapsto> v3)) n = tgt n"
    using assms(2) by simp
  with s show "\<exists>tgt'. star_import env ns0 tgt = Inr tgt' \<and> tgt' n = tgt n"
    by blast
qed

theorem nothing_else_exported_witness:
  "\<exists>ns. import_package spec_siblings Map.empty = Inr ns \<and>
     ''datadog'' \<notin> {''list_datadog_alerts'', ''list_elastic_alerts'',
                      ''acumen_list_elastic_alerts''} \<and>
     (\<exists>xs. ns ''__all__'' = Some (PyList xs) \<and> PyStr ''datadog'' \<notin> set xs) \<and>
     (\<exists>tgt'. star_import spec_siblings Map.empty Map.empty = Inr tgt' \<and>
        tgt' ''datadog'' = Map.empty ''datadog'')"
proof -
  have n: "''datadog'' \<notin> {''list_datadog_alerts'', ''list_elastic_alerts'',
                            ''acumen_list_elastic_alerts''}"
    by simp
  note t = nothing_else_exported [OF import_package_spec [of Map.empty] n, of Map.empty]
  from import_package_spec [of Map.empty] n t show ?thesis by iprover
qed

text \<open>
  Claim C9. Every name listed in \<open>__all__\<close> is bound in the namespace of the package
  by the three import statements that precede the assignment (the first three statements
  of the initializer), and is still bound when the initializer has finished. So no entry
  names an unbound attribute, and a star-import of the imported package succeeds.
\<close>

theorem export_list_entries_bound:
  assumes "import_package env ns0 = Inr ns"
  shows "(\<exists>xs ns3. ns ''__all__'' = Some (PyList (map PyStr xs)) \<and>
            exec_stmts env (take 3 siem_init) ns0 = Inr ns3 \<and>
            set xs \<subseteq> set (imported_names (take 3 siem_init)) \<and>
            set xs \<subseteq> dom ns3 \<and> set xs \<subseteq> dom ns) \<and>
         (\<exists>tgt'. star_import env ns0 tgt = Inr tgt')"
proof
  from import_package_Inr [OF assms]
  have a: "ns ''__all__'' =
          Some (PyList (map PyStr [''list_datadog_alerts'', ''list_elastic_alerts'',
                                   ''acumen_list_elastic_alerts'']))"
    by auto
  from import_prefix_Inr [OF assms] obtain ns3 where
    p: "exec_stmts env (take 3 siem_init) ns0 = Inr ns3"
       "{''list_datadog_alerts'', ''list_elastic_alerts'',
         ''acumen_list_elastic_alerts''} \<subseteq> dom ns3"
       "{''list_datadog_alerts'', ''list_elastic_alerts'',
         ''acumen_list_elastic_alerts''} \<subseteq> dom ns"
    by blast
  have i: "set [''list_datadog_alerts'', ''list_elastic_alerts'',
                ''acumen_list_elastic_alerts''] \<subseteq> set (imported_names (take 3 siem_init))"
    unfolding siem_init_def by simp
  have s: "set [''list_datadog_alerts'', ''list_elastic_alerts'',
                ''acumen_list_elastic_alerts''] =
           {''list_datadog_alerts'', ''list_elastic_alerts'', ''acumen_list_elastic_alerts''}"
    by simp
  show "\<exists>xs ns3. ns ''__all__'' = Some (PyList (map PyStr xs)) \<and>
            exec_stmts env (take 3 siem_init) ns0 = Inr ns3 \<and>
            set xs \<subseteq> set (imported_names (take 3 siem_init)) \<and>
            set xs \<subseteq> dom ns3 \<and> set xs \<subseteq> dom ns"
    using a p i unfolding s [symmetric] by blast
next
  from star_import_Inr [OF assms, of tgt]
  show "\<exists>tgt'. star_import env ns0 tgt = Inr tgt'" by blast
qed

theorem export_list_entries_bound_witness:
  "\<exists>ns. import_package spec_siblings Map.empty = Inr ns \<and>
     (\<exists>xs ns3. ns ''__all__'' = Some (PyList (map PyStr xs)) \<and>
        exec_stmts spec_siblings (take 3 siem_init) Map.empty = Inr ns3 \<and>
        set xs \<subseteq> set (imported_names (take 3 siem_init)) \<and>
        set xs \<subseteq> dom ns3 \<and> set xs \<subseteq> dom ns) \<and>
     (\<exists>tgt'. star_import spec_siblings Map.empty Map.empty = Inr tgt')"
  using export_list_entries_bound [OF import_package_spec [of Map.empty], of Map.empty]
    import_package_spec [of Map.empty]
  by blast

subsection \<open>What importing the package changes\<close>

text \<open>
  The import does bind names besides the three re-exported ones and \<open>__all__\<close>: after
  the import the package has the attribute \<open>datadog\<close>, the submodule that the first
  import statement loaded, although that name was unbound before and is none of the four.
\<close>

theorem import_binds_only_exports_counterexample:
  "package_getattr spec_siblings Map.empty ''datadog'' = Inr (PyModule ''datadog'') \<and>
   ''datadog'' \<notin> dom (Map.empty :: namespace) \<and>
   ''datadog'' \<notin> {''list_datadog_alerts'', ''list_elastic_alerts'',
                    ''acumen_list_elastic_alerts'', ''__all__''}"
  by (simp add: package_getattr_def import_package_spec)

text \<open>
  Claim C5, amended. Importing the package has no effect beyond binding the three
  re-exported names and the export list \<open>__all__\<close>, and beyond what the import system
  does when a from-import has to load a sibling module: it runs the body of the sibling,
  with whatever effects that has, records the module as loaded and binds its name in the
  package. So every observation of the state that loading \<open>datadog\<close>, \<open>elastic\<close> and
  \<open>acumen_elastic\<close> does not change, and that does not depend on the four names, is the
  same after the import as before. When the three sibling modules are loaded already, the
  import binds the four names and leaves all other state unchanged: the other names of the
  package, the table of loaded modules and the rest of the state. The initializer is
  nothing but its from-imports followed by the assignment of the literal list of the
  imported names: it defines no function and no class, computes nothing and has no
  control flow.
\<close>

theorem import_effects:
  assumes "import_package_world run w0 = Inr w"
  shows "((\<forall>m w1 d w2. m \<in> {''datadog'', ''elastic'', ''acumen_elastic''} \<longrightarrow>
             import_submodule run m w1 = Inr (d, w2) \<longrightarrow> obs w2 = obs w1) \<longrightarrow>
          (\<forall>x v w1. x \<in> {''list_datadog_alerts'', ''list_elastic_alerts'',
                          ''acumen_list_elastic_alerts'', ''__all__''} \<longrightarrow>
             obs (w1\<lparr>globals := (globals w1)(x \<mapsto> v)\<rparr>) = obs w1) \<longrightarrow>
          obs w = obs w0) \<and>
         ({''datadog'', ''elastic'', ''acumen_elastic''} \<subseteq> dom (loaded w0) \<longrightarrow>
          rest w = rest w0 \<and> loaded w = loaded w0 \<and>
          dom (globals w) =
            dom (globals w0) \<union> {''list_datadog_alerts'', ''list_elastic_alerts'',
                                  ''acumen_list_elastic_alerts'', ''__all__''} \<and>
          (\<forall>x. x \<notin> {''list_datadog_alerts'', ''list_elastic_alerts'',
                      ''acumen_list_elastic_alerts'', ''__all__''} \<longrightarrow>
             globals w x = globals w0 x)) \<and>
         siem_init =
           map2 ImportFrom (imported_modules siem_init) (imported_names siem_init) @
           [Assign ''__all__'' (ListLit (map StrLit (imported_names siem_init)))]"
proof -
  from assms have s: "step_stmts run siem_init w0 = Inr w"
    by (simp add: import_package_world_def)
  have a: "(\<forall>m w1 d w2. m \<in> {''datadog'', ''elastic'', ''acumen_elastic''} \<longrightarrow>
             import_submodule run m w1 = Inr (d, w2) \<longrightarrow> obs w2 = obs w1) \<longrightarrow>
          (\<forall>x v w1. x \<in> {''list_datadog_alerts'', ''list_elastic_alerts'',
                          ''acumen_list_elastic_alerts'', ''__all__''} \<longrightarrow>
             obs (w1\<lparr>globals := (globals w1)(x \<mapsto> v)\<rparr>) = obs w1) \<longrightarrow>
          obs w = obs w0"
  proof (intro impI)
    assume l: "\<forall>m w1 d w2. m \<in> {''datadog'', ''elastic'', ''acumen_elastic''} \<longrightarrow>
               import_submodule run m w1 = Inr (d, w2) \<longrightarrow> obs w2 = obs w1"
      and b: "\<forall>x v w1. x \<in> {''list_datadog_alerts'', ''list_elastic_alerts'',
                            ''acumen_list_elastic_alerts'', ''__all__''} \<longrightarrow>
               obs (w1\<lparr>globals := (globals w1)(x \<mapsto> v)\<rparr>) = obs w1"
    show "obs w = obs w0"
    proof (rule step_stmts_obs [OF s])
      fix m w1 d w2
      assume "m \<in> set (imported_modules siem_init)" "import_submodule run m w1 = Inr (d, w2)"
      with l show "obs w2 = obs w1" unfolding imported_modules_siem_init by blast
    next
      fix x v w1
      assume "x \<in> set (map target siem_init)"
      with b show "obs (w1\<lparr>globals := (globals w1)(x \<mapsto> v)\<rparr>) = obs w1"
        unfolding target_siem_init by blast
    qed
  qed
  have b: "{''datadog'', ''elastic'', ''acumen_elastic''} \<subseteq> dom (loaded w0) \<longrightarrow>
          rest w = rest w0 \<and> loaded w = loaded w0 \<and>
          dom (globals w) =
            dom (globals w0) \<union> {''list_datadog_alerts'', ''list_elastic_alerts'',
                                  ''acumen_list_elastic_alerts'', ''__all__''} \<and>
          (\<forall>x. x \<notin> {''list_datadog_alerts'', ''list_elastic_alerts'',
                      ''acumen_list_elastic_alerts'', ''__all__''} \<longrightarrow>
             globals w x = globals w0 x)"
  proof (rule impI)
    assume "{''datadog'', ''elastic'', ''acumen_elastic''} \<subseteq> dom (loaded w0)"
    then have l: "set (imported_modules siem_init) \<subseteq> dom (loaded w0)"
      unfolding imported_modules_siem_init .
    from step_stmts_loaded [OF s l]
    show "rest w = rest w0 \<and> loaded w = loaded w0 \<and>
          dom (globals w) =
            dom (globals w0) \<union> {''list_datadog_alerts'', ''list_elastic_alerts'',
                                  ''acumen_list_elastic_alerts'', ''__all__''} \<and>
          (\<forall>x. x \<notin> {''list_datadog_alerts'', ''list_elastic_alerts'',
                      ''acumen_list_elastic_alerts'', ''__all__''} \<longrightarrow>
             globals w x = globals w0 x)"
      unfolding target_siem_init .
  qed
  from a b siem_init_shape show ?thesis by (intro conjI)
qed

theorem import_effects_witness:
  "\<exists>w1 w2.
     import_package_world siblings_with_helper fresh_world = Inr w1 \<and>
     rest w1 = rest fresh_world \<and>
     globals w1 ''helper'' = Some (PyModule ''helper'') \<and>
     {''datadog'', ''elastic'', ''acumen_elastic''} \<subseteq> dom (loaded siblings_loaded_world) \<and>
     import_package_world siblings_with_helper siblings_loaded_world = Inr w2 \<and>
     rest w2 = rest siblings_loaded_world \<and>
     loaded w2 = loaded siblings_loaded_world \<and>
     dom (globals w2) =
       dom (globals siblings_loaded_world) \<union>
         {''list_datadog_alerts'', ''list_elastic_alerts'', ''acumen_list_elastic_alerts'',
          ''__all__''} \<and>
     ''datadog'' \<notin> {''list_datadog_alerts'', ''list_elastic_alerts'',
                      ''acumen_list_elastic_alerts'', ''__all__''} \<and>
     globals w2 ''datadog'' = globals siblings_loaded_world ''datadog'' \<and>
     siem_init =
       map2 ImportFrom (imported_modules siem_init) (imported_names siem_init) @
       [Assign ''__all__'' (ListLit (map StrLit (imported_names siem_init)))]"
proof -
  from first_import_with_helper obtain w1 where
    e1: "import_package_world siblings_with_helper fresh_world = Inr w1" and
    h: "globals w1 ''helper'' = Some (PyModule ''helper'')"
    by iprover
  from reimport_loaded [of siblings_with_helper] obtain w2 where
    e2: "import_package_world siblings_with_helper siblings_loaded_world = Inr w2"
    by iprover
  have x: "''datadog'' \<notin> {''list_datadog_alerts'', ''list_elastic_alerts'',
                            ''acumen_list_elastic_alerts'', ''__all__''}"
    by simp
  have l: "\<forall>m (w1::nat world) d w2. m \<in> {''datadog'', ''elastic'', ''acumen_elastic''} \<longrightarrow>
             import_submodule siblings_with_helper m w1 = Inr (d, w2) \<longrightarrow> rest w2 = rest w1"
    using import_submodule_helper_rest by blast
  have b: "\<forall>x v (w1::nat world). x \<in> {''list_datadog_alerts'', ''list_elastic_alerts'',
                          ''acumen_list_elastic_alerts'', ''__all__''} \<longrightarrow>
             rest (w1\<lparr>globals := (globals w1)(x \<mapsto> v)\<rparr>) = rest w1"
    by simp
  from import_effects [OF e1, of rest, THEN conjunct1] l b
  have r1: "rest w1 = rest fresh_world" by iprover
  note t2 = import_effects [OF e2, of rest, THEN conjunct2, THEN conjunct1, THEN mp,
      OF siblings_loaded]
  from t2 have r2: "rest w2 = rest siblings_loaded_world"
    and l2: "loaded w2 = loaded siblings_loaded_world"
    and d2: "dom (globals w2) =
       dom (globals siblings_loaded_world) \<union>
         {''list_datadog_alerts'', ''list_elastic_alerts'', ''acumen_list_elastic_alerts'',
          ''__all__''}"
    and f2: "\<forall>x. x \<notin> {''list_datadog_alerts'', ''list_elastic_alerts'',
                      ''acumen_list_elastic_alerts'', ''__all__''} \<longrightarrow>
             globals w2 x = globals siblings_loaded_world x"
    by iprover+
  from f2 x have g2: "globals w2 ''datadog'' = globals siblings_loaded_world ''datadog''"
    by iprover
  from e1 r1 h siblings_loaded e2 r2 l2 d2 x g2 siem_init_shape
  show ?thesis by iprover
qed

subsection \<open>Errors\<close>




end
